theory Spec2Isabelle
  imports Complex_Main
begin

section \<open>AASHTO 1993 structural number calculator (hellofriday.py)\<close>

text \<open>
  The script computes with Python floats. The embedding idealises them as real numbers:
  \<open>math.log10\<close> is \<open>log 10\<close> on the positive reals and raises \<open>ValueError\<close>
  elsewhere, \<open>/\<close> raises \<open>ZeroDivisionError\<close> on a zero divisor, and \<open>**\<close> with a
  positive base is \<open>powr\<close>. Overflow and NaN are outside the model, and so is rounding,
  except in the CBR conversion, where the product is rounded to the nearest double as the
  float multiplication does.
\<close>

subsection \<open>Exceptions and fallible primitives\<close>

text \<open>
  \<open>InvalidInput\<close> is the error kind of the design document; the script neither defines
  nor raises it.
\<close>

datatype py_exn =
  ValueError | ZeroDivisionError | KeyError | IndexError | LibraryError | InvalidInput

definition py_bind :: "py_exn + 'a \<Rightarrow> ('a \<Rightarrow> py_exn + 'b) \<Rightarrow> py_exn + 'b" where
  "py_bind m k = (case m of Inl e \<Rightarrow> Inl e | Inr v \<Rightarrow> k v)"

definition math_log10 :: "real \<Rightarrow> py_exn + real" where
  "math_log10 x = (if x > 0 then Inr (log 10 x) else Inl ValueError)"

definition py_div :: "real \<Rightarrow> real \<Rightarrow> py_exn + real" where
  "py_div a b = (if b = 0 then Inl ZeroDivisionError else Inr (a / b))"

subsection \<open>Inputs: reliability table, subgrade modulus, serviceability loss\<close>

definition z_r_dict :: "(real \<times> real) list" where
  "z_r_dict =
     [(50, 0.000), (60, - 0.253), (70, - 0.524), (75, - 0.674), (80, - 0.841),
      (85, - 1.037), (90, - 1.282), (95, - 1.645), (99, - 2.327), (99.9, - 3.090)]"

definition z_r :: "real \<Rightarrow> py_exn + real" where
  \<comment> \<open>\<open>z_r_dict[reliability_percent]\<close>: a missing key raises \<open>KeyError\<close>.\<close>
  "z_r reliability_percent =
     (case map_of z_r_dict reliability_percent of
        None \<Rightarrow> Inl KeyError
      | Some v \<Rightarrow> Inr v)"

text \<open>
  A double has 53 significant bits. The float product of two doubles is their exact product
  rounded to the nearest double, ties to the even significand; products here lie far from
  the overflow and subnormal ranges.
\<close>

definition rne :: "real \<Rightarrow> int" where
  \<comment> \<open>round to the nearest integer, ties to even\<close>
  "rne q =
     (let f = \<lfloor>q\<rfloor>; r = q - real_of_int f
      in if r < 1/2 then f else if 1/2 < r then f + 1 else if even f then f else f + 1)"

definition double_exponent :: "real \<Rightarrow> int" where
  \<comment> \<open>exponent of the last of the 53 significant bits\<close>
  "double_exponent x = \<lfloor>log 2 \<bar>x\<bar>\<rfloor> - 52"

definition ulp :: "real \<Rightarrow> real" where
  "ulp x = 2 powr real_of_int (double_exponent x)"

definition round_to_double :: "real \<Rightarrow> real" where
  "round_to_double x =
     (if x = 0 then 0 else real_of_int (rne (x / ulp x)) * ulp x)"

datatype mr_input_type = MR_direct real | MR_from_CBR real

fun mr :: "mr_input_type \<Rightarrow> real" where
  \<comment> \<open>\<open>cbr\<close> is a float, so \<open>1500 * cbr\<close> is a float product.\<close>
  "mr (MR_direct m) = m"
| "mr (MR_from_CBR cbr) = round_to_double (1500 * cbr)"

definition delta_psi :: "real \<Rightarrow> real \<Rightarrow> real" where
  "delta_psi p_i p_t = p_i - p_t"

subsection \<open>The residual \<open>aashto_equation\<close>\<close>

definition term3_numerator :: "real \<Rightarrow> py_exn + real" where
  "term3_numerator dpsi =
     (if dpsi / 4.2 - 1.5 > 0 then math_log10 (dpsi / 4.2 - 1.5) else math_log10 0.001)"

definition aashto_equation ::
  "real \<Rightarrow> real \<Rightarrow> real \<Rightarrow> real \<Rightarrow> real \<Rightarrow> real \<Rightarrow> py_exn + real" where
  \<comment> \<open>Statements in source order. \<open>(SN + 1) ** 5.19\<close> is only reached after
      \<open>math.log10(SN + 1)\<close> has succeeded, hence with a positive base.\<close>
  "aashto_equation SN W18 ZR S0 dpsi MR =
     py_bind (math_log10 W18) (\<lambda>log_W18.
     let term1 = ZR * S0 in
     py_bind (math_log10 (SN + 1)) (\<lambda>l2.
     let term2 = 9.36 * l2 - 0.20 in
     py_bind (term3_numerator dpsi) (\<lambda>num.
     py_bind (py_div 1094 ((SN + 1) powr 5.19)) (\<lambda>q.
     let term3_denominator = 0.40 + q in
     py_bind (py_div num term3_denominator) (\<lambda>term3.
     py_bind (math_log10 MR) (\<lambda>l4.
     let term4 = 2.32 * l4 - 8.07;
         result = term1 + term2 + term3 + term4
     in Inr (result - log_W18)))))))"

subsection \<open>The calculate button\<close>

text \<open>
  \<open>scipy.optimize.fsolve\<close> is a library routine, so the root finder is a parameter. It
  receives the residual and the initial guess; the tuple \<open>args\<close> is only handed on to the
  residual, so the residual arrives here as a function of \<open>SN\<close> alone. The call either
  raises or returns an array, of which the script takes element 0. The script asks for no
  status output, so nothing but the array and exceptions reaches it.
\<close>

type_synonym root_finder = "(real \<Rightarrow> py_exn + real) \<Rightarrow> real \<Rightarrow> py_exn + real list"

record report =
  SN_required :: real
  SN_rounded :: real
  D1 :: real
  D2 :: real
  D3 :: real

datatype click_result = Success report | Failed py_exn

definition round_up_half :: "real \<Rightarrow> real" where
  \<comment> \<open>\<open>math.ceil(SN_required * 2) / 2\<close>\<close>
  "round_up_half sn = real_of_int \<lceil>sn * 2\<rceil> / 2"

definition first_elem :: "real list \<Rightarrow> py_exn + real" where
  "first_elem xs = (case xs of [] \<Rightarrow> Inl IndexError | x # _ \<Rightarrow> Inr x)"

definition show_result :: "py_exn + real list \<Rightarrow> click_result" where
  \<comment> \<open>The body of the \<open>try\<close> after the call, and the \<open>except Exception\<close> handler.\<close>
  "show_result outcome =
     (case py_bind outcome first_elem of
        Inl e \<Rightarrow> Failed e
      | Inr sn \<Rightarrow>
          Success \<lparr> SN_required = sn, SN_rounded = round_up_half sn,
                    D1 = (sn / 3) / 0.44, D2 = (sn / 3) / 0.14, D3 = (sn / 3) / 0.11 \<rparr>)"

definition SN_initial_guess :: real where
  "SN_initial_guess = 3.0"

definition calculate ::
  "root_finder \<Rightarrow> real \<Rightarrow> real \<Rightarrow> real \<Rightarrow> real \<Rightarrow> real \<Rightarrow> click_result" where
  "calculate fsolve esal_input zr s0 dpsi m =
     show_result (fsolve (\<lambda>SN. aashto_equation SN esal_input zr s0 dpsi m) SN_initial_guess)"

definition run_script ::
  "root_finder \<Rightarrow> real \<Rightarrow> real \<Rightarrow> real \<Rightarrow> mr_input_type \<Rightarrow> real \<Rightarrow> real
     \<Rightarrow> py_exn + click_result" where
  \<comment> \<open>One run of the page with the button pressed. The reliability lookup comes before
      the \<open>try\<close> block, so its exception escapes the script (\<open>Inl\<close>); an exception
      inside the block is handled and shown (\<open>Inr (Failed e)\<close>).\<close>
  "run_script fsolve esal_input reliability_percent s0 mr_input p_i p_t =
     py_bind (z_r reliability_percent) (\<lambda>zr.
       Inr (calculate fsolve esal_input zr s0 (delta_psi p_i p_t) (mr mr_input)))"

subsection \<open>Convergence of a reported value\<close>

definition residual_within :: "real \<Rightarrow> py_exn + real \<Rightarrow> bool" where
  \<comment> \<open>The residual was evaluated and its magnitude is below the tolerance.\<close>
  "residual_within tol r = (case r of Inl e \<Rightarrow> False | Inr v \<Rightarrow> \<bar>v\<bar> < tol)"

definition stalled_fsolve :: root_finder where
  \<comment> \<open>A root finder that makes no progress and hands back its starting point.\<close>
  "stalled_fsolve func x0 = Inr [x0]"

section \<open>Properties\<close>

subsection \<open>Helper facts\<close>

lemma log10_thousandth: "log 10 0.001 = - 3"
proof -
  have "log 10 (10 powr (- 3)) = - 3"
    by (rule log_powr_cancel) simp_all
  moreover have "(10::real) powr (- 3) = 0.001"
    by (simp add: powr_minus_divide)
  ultimately show ?thesis by simp
qed

lemma term3_denominator_pos:
  assumes "(SN::real) > - 1"
  shows "(0::real) < 0.40 + 1094 / (SN + 1) powr 5.19"
proof -
  have "(0::real) < (SN + 1) powr 5.19" using assms by simp
  then have "(0::real) < 1094 / (SN + 1) powr 5.19" by simp
  then show ?thesis by (simp add: add_pos_pos)
qed

lemma term3_numerator_value:
  "term3_numerator d =
     Inr (if d / 4.2 - 1.5 > 0 then log 10 (d / 4.2 - 1.5) else log 10 0.001)"
  by (simp add: term3_numerator_def math_log10_def)

lemma aashto_equation_value:
  assumes "SN > - 1" "W18 > 0" "MR > 0"
  shows "aashto_equation SN W18 ZR S0 d MR =
     Inr (ZR * S0 + (9.36 * log 10 (SN + 1) - 0.20)
          + (if d / 4.2 - 1.5 > 0 then log 10 (d / 4.2 - 1.5) else log 10 0.001)
            / (0.40 + 1094 / (SN + 1) powr 5.19)
          + (2.32 * log 10 MR - 8.07) - log 10 W18)"
proof -
  have p: "(SN + 1) powr 5.19 \<noteq> 0" using assms(1) by simp
  have q: "0.40 + 1094 / (SN + 1) powr 5.19 \<noteq> 0"
    using term3_denominator_pos [OF assms(1)] by simp
  have s: "SN + 1 > 0" using assms(1) by simp
  show ?thesis
    unfolding aashto_equation_def term3_numerator_value
    using p q s assms(2,3)
    by (simp add: py_bind_def math_log10_def py_div_def Let_def)
qed

text \<open>
  C2. The third-term numerator is \<open>log10(delta_psi/4.2 - 1.5)\<close> when that quantity is
  positive and \<open>log10(0.001)\<close> when it is not; in neither branch does the logarithm
  raise, for any \<open>delta_psi\<close>.
\<close>
theorem term3_numerator_guarded:
  "(d / 4.2 - 1.5 > 0 \<longrightarrow> term3_numerator d = Inr (log 10 (d / 4.2 - 1.5)))
   \<and> (d / 4.2 - 1.5 \<le> 0 \<longrightarrow> term3_numerator d = Inr (log 10 0.001))
   \<and> (\<forall>e. term3_numerator d \<noteq> Inl e)"
  by (simp add: term3_numerator_value)

theorem term3_numerator_guarded_witness:
  "(8.4::real) / 4.2 - 1.5 > 0 \<and> term3_numerator 8.4 = Inr (log 10 (8.4 / 4.2 - 1.5))
   \<and> (1.7::real) / 4.2 - 1.5 \<le> 0 \<and> term3_numerator 1.7 = Inr (log 10 0.001)"
  using term3_numerator_guarded [of "8.4"] term3_numerator_guarded [of "1.7"]
  by simp

text \<open>
  C1. For \<open>SN > -1\<close>, \<open>W18 > 0\<close> and \<open>MR > 0\<close> the residual returns
  \<open>ZR*S0 + (9.36*log10(SN+1) - 0.20) + num/(0.40 + 1094/(SN+1)^5.19)
  + (2.32*log10(MR) - 8.07) - log10(W18)\<close>, where \<open>num\<close> is the guarded numerator.
\<close>
theorem aashto_equation_formula:
  assumes "SN > - 1" and "W18 > 0" and "MR > 0"
  shows "aashto_equation SN W18 ZR S0 d MR =
     Inr (ZR * S0 + (9.36 * log 10 (SN + 1) - 0.20)
          + (if d / 4.2 - 1.5 > 0 then log 10 (d / 4.2 - 1.5) else log 10 0.001)
            / (0.40 + 1094 / (SN + 1) powr 5.19)
          + (2.32 * log 10 MR - 8.07) - log 10 W18)"
  using assms by (rule aashto_equation_value)

theorem aashto_equation_formula_witness:
  "(3::real) > - 1 \<and> (5000000::real) > 0 \<and> (7500::real) > 0
   \<and> aashto_equation 3 5000000 (- 1.282) 0.45 1.7 7500 =
     Inr (- 1.282 * 0.45 + (9.36 * log 10 (3 + 1) - 0.20)
          + log 10 0.001 / (0.40 + 1094 / (3 + 1) powr 5.19)
          + (2.32 * log 10 7500 - 8.07) - log 10 5000000)"
  using aashto_equation_formula [of 3 5000000 7500 "- 1.282" "0.45" "1.7"]
  by simp

text \<open>
  C10. For \<open>SN > -1\<close>, \<open>W18 > 0\<close>, \<open>MR > 0\<close> and every \<open>delta_psi\<close>, also zero or
  negative, the residual returns a number: no logarithm leaves its domain and no divisor
  is zero, and nothing rejects a non-positive \<open>delta_psi\<close>.
\<close>
theorem aashto_equation_total:
  assumes "SN > - 1" and "W18 > 0" and "MR > 0"
  shows "\<exists>v. aashto_equation SN W18 ZR S0 d MR = Inr v"
  using aashto_equation_value [OF assms] by blast

theorem aashto_equation_total_witness:
  "(3::real) > - 1 \<and> (5000000::real) > 0 \<and> (7500::real) > 0
   \<and> (\<exists>v. aashto_equation 3 5000000 (- 1.282) 0.45 (- 1) 7500 = Inr v)
   \<and> (\<exists>v. aashto_equation 3 5000000 (- 1.282) 0.45 0 7500 = Inr v)"
  using aashto_equation_total [of 3 5000000 7500 "- 1.282" "0.45" "- 1"]
        aashto_equation_total [of 3 5000000 7500 "- 1.282" "0.45" 0]
  by simp

text \<open>
  C6, as the code has it. The reliability lookup sends 50, 60, 70, 75, 80, 85, 90, 95, 99,
  99.9 to 0.000, -0.253, -0.524, -0.674, -0.841, -1.037, -1.282, -1.645, -2.327, -3.090 and
  succeeds on exactly these keys. On any other key it raises \<open>KeyError\<close>, and since the
  lookup stands before the \<open>try\<close> block the exception escapes the script unhandled.
\<close>
theorem z_r_lookup:
  "z_r 50 = Inr 0.000 \<and> z_r 60 = Inr (- 0.253) \<and> z_r 70 = Inr (- 0.524)
   \<and> z_r 75 = Inr (- 0.674) \<and> z_r 80 = Inr (- 0.841) \<and> z_r 85 = Inr (- 1.037)
   \<and> z_r 90 = Inr (- 1.282) \<and> z_r 95 = Inr (- 1.645) \<and> z_r 99 = Inr (- 2.327)
   \<and> z_r 99.9 = Inr (- 3.090)
   \<and> ((\<exists>v. z_r k = Inr v) \<longleftrightarrow> k \<in> {50, 60, 70, 75, 80, 85, 90, 95, 99, 99.9})
   \<and> (k \<notin> {50, 60, 70, 75, 80, 85, 90, 95, 99, 99.9} \<longrightarrow>
        z_r k = Inl KeyError
        \<and> run_script fsolve esal_input k s0 mr_input p_i p_t = Inl KeyError)"
  by (simp add: z_r_def z_r_dict_def run_script_def py_bind_def)

theorem z_r_lookup_witness:
  "(55::real) \<notin> {50, 60, 70, 75, 80, 85, 90, 95, 99, 99.9} \<and> z_r 55 = Inl KeyError
   \<and> (\<forall>fsolve. run_script fsolve 5000000 55 0.45 (MR_direct 7500) 4.2 2.5 = Inl KeyError)
   \<and> (90::real) \<in> {50, 60, 70, 75, 80, 85, 90, 95, 99, 99.9} \<and> z_r 90 = Inr (- 1.282)"
  using z_r_lookup [of 55 _ 5000000 "0.45" "MR_direct 7500" "4.2" "2.5"] by simp

text \<open>
  The exception of a key outside the table is \<open>KeyError\<close>, not \<open>InvalidInput\<close>.
\<close>

theorem z_r_missing_key_is_KeyError:
  "z_r 55 = Inl KeyError \<and> z_r 55 \<noteq> Inl InvalidInput"
  by (simp add: z_r_def z_r_dict_def)

text \<open>
  C7. Whenever the script reports a result, the rounded structural number is
  \<open>ceil(SN*2)/2\<close>, it is at least \<open>SN\<close>, and it exceeds \<open>SN\<close> by less than 0.5.
\<close>
theorem round_up_law:
  assumes "show_result outcome = Success r"
  shows "SN_rounded r = real_of_int \<lceil>SN_required r * 2\<rceil> / 2
         \<and> SN_rounded r \<ge> SN_required r
         \<and> SN_rounded r - SN_required r < 0.5"
proof -
  obtain sn where r: "r = \<lparr> SN_required = sn, SN_rounded = round_up_half sn,
      D1 = (sn / 3) / 0.44, D2 = (sn / 3) / 0.14, D3 = (sn / 3) / 0.11 \<rparr>"
    using assms by (auto simp: show_result_def split: sum.splits)
  have "sn * 2 \<le> real_of_int \<lceil>sn * 2\<rceil>" by (rule le_of_int_ceiling)
  moreover have "real_of_int \<lceil>sn * 2\<rceil> < sn * 2 + 1" by linarith
  ultimately show ?thesis
    by (simp add: r round_up_half_def)
qed

theorem round_up_law_witness:
  "show_result (Inr [3.2]) =
     Success \<lparr> SN_required = 3.2, SN_rounded = 3.5,
               D1 = (3.2 / 3) / 0.44, D2 = (3.2 / 3) / 0.14, D3 = (3.2 / 3) / 0.11 \<rparr>
   \<and> (3.5::real) = real_of_int \<lceil>(3.2::real) * 2\<rceil> / 2
   \<and> (3.5::real) \<ge> 3.2 \<and> (3.5::real) - 3.2 < 0.5"
proof -
  have c: "\<lceil>(32::real) / 5\<rceil> = 7"
    by (simp add: ceiling_eq_iff)
  have h: "show_result (Inr [3.2]) =
     Success \<lparr> SN_required = 3.2, SN_rounded = 3.5,
               D1 = (3.2 / 3) / 0.44, D2 = (3.2 / 3) / 0.14, D3 = (3.2 / 3) / 0.11 \<rparr>"
    by (simp add: show_result_def py_bind_def first_elem_def round_up_half_def c)
  show ?thesis
    using h round_up_law [OF h] by simp
qed

subsection \<open>Rounding to a double\<close>

lemma rne_error: "\<bar>real_of_int (rne q) - q\<bar> \<le> 1/2"
  unfolding rne_def Let_def by (auto; linarith)

lemma rne_of_int: "rne (real_of_int m) = m"
  by (simp add: rne_def)

lemma ulp_pos: "0 < ulp x"
  by (simp add: ulp_def)

lemma round_to_double_error: "\<bar>round_to_double x - x\<bar> \<le> ulp x / 2"
proof (cases "x = 0")
  case True
  then show ?thesis using ulp_pos [of 0] by (simp add: round_to_double_def)
next
  case False
  have "round_to_double x - x = ulp x * (real_of_int (rne (x / ulp x)) - x / ulp x)"
    using False ulp_pos [of x] by (simp add: round_to_double_def field_simps)
  then have "\<bar>round_to_double x - x\<bar> =
             ulp x * \<bar>real_of_int (rne (x / ulp x)) - x / ulp x\<bar>"
    using ulp_pos [of x] by (simp add: abs_mult)
  also have "\<dots> \<le> ulp x * (1/2)"
    using rne_error [of "x / ulp x"] ulp_pos [of x] by (intro mult_left_mono) simp_all
  finally show ?thesis by simp
qed

lemma ulp_relative:
  assumes "0 < x"
  shows "ulp x \<le> x / 2 ^ 52"
proof -
  have "real_of_int (double_exponent x) \<le> log 2 x - 52"
    using assms by (simp add: double_exponent_def)
  then have "ulp x \<le> 2 powr (log 2 x - 52)"
    by (simp add: ulp_def)
  also have "\<dots> = x / 2 ^ 52"
    using assms by (simp add: powr_diff)
  finally show ?thesis .
qed

lemma round_to_double_exact:
  assumes "x = real_of_int m * ulp x"
  shows "round_to_double x = x"
proof (cases "x = 0")
  case True
  then show ?thesis by (simp add: round_to_double_def)
next
  case False
  have "x / ulp x = real_of_int m"
    using assms ulp_pos [of x] by (metis less_irrefl nonzero_mult_div_cancel_right)
  then show ?thesis
    using assms False by (simp add: round_to_double_def rne_of_int)
qed

lemma double_exponent_eq:
  assumes "2 ^ n \<le> x" and "x < 2 ^ (n + 1)"
  shows "double_exponent x = int n - 52"
proof -
  have pos: "0 < x" using assms(1) by (smt (verit) zero_less_power)
  have "real n \<le> log 2 x"
    using assms(1) pos by (simp add: le_log_iff powr_realpow)
  moreover have "log 2 x < real n + 1"
  proof -
    have "(2::real) powr (real n + 1) = 2 ^ (n + 1)"
      by (simp add: powr_add powr_realpow)
    then show ?thesis
      using assms(2) pos by (simp add: log_less_iff)
  qed
  ultimately have "\<lfloor>log 2 x\<rfloor> = int n"
    by (simp add: floor_eq_iff)
  then show ?thesis
    using pos by (simp add: double_exponent_def)
qed

lemma ulp_7500: "ulp 7500 = 1 / 2 ^ 40"
  using double_exponent_eq [of 12 7500]
  by (simp add: ulp_def powr_minus_divide)

lemma double_1_1:
  "round_to_double (4953959590107546 / 2 ^ 52) = 4953959590107546 / 2 ^ 52"
proof -
  have "double_exponent (4953959590107546 / 2 ^ 52) = - 52"
    using double_exponent_eq [of 0 "4953959590107546 / 2 ^ 52"] by simp
  then have "ulp (4953959590107546 / 2 ^ 52) = 1 / 2 ^ 52"
    by (simp add: ulp_def powr_minus_divide)
  then have "(4953959590107546 / 2 ^ 52 :: real) =
             real_of_int 4953959590107546 * ulp (4953959590107546 / 2 ^ 52)"
    by simp
  then show ?thesis
    by (rule round_to_double_exact)
qed

lemma double_exponent_1650:
  "double_exponent (1500 * (4953959590107546 / 2 ^ 52)) = - 42"
  using double_exponent_eq [of 10 "1500 * (4953959590107546 / 2 ^ 52)"]
  by simp

lemma rne_1650: "rne (1857734846290329750 / 256) = 7256776743321601"
proof -
  have "\<lfloor>(1857734846290329750::real) / 256\<rfloor> = 7256776743321600"
    by (simp add: floor_eq_iff)
  then show ?thesis
    by (simp add: rne_def Let_def)
qed

lemma mr_1_1:
  "mr (MR_from_CBR (4953959590107546 / 2 ^ 52)) = 7256776743321601 / 2 ^ 42"
proof -
  have u: "ulp (1500 * (4953959590107546 / 2 ^ 52)) = 1 / 2 ^ 42"
    by (simp only: ulp_def double_exponent_1650) (simp add: powr_minus_divide)
  have q: "1500 * (4953959590107546 / 2 ^ 52) / (1 / 2 ^ 42) =
           (1857734846290329750::real) / 256"
    by simp
  show ?thesis
    by (simp only: mr.simps round_to_double_def u q rne_1650) simp
qed

text \<open>
  C8, as the code has it. For every \<open>CBR > 0\<close> the resilient modulus is the float product
  \<open>1500 * CBR\<close>: the exact product rounded to the nearest double. It is within half a unit
  in the last place of the exact product, hence within a relative error of \<open>2^-53\<close>, and it
  is the exact product whenever that is a double. Nothing clamps it.
\<close>
theorem cbr_to_mr_rounded:
  assumes "cbr > 0"
  shows "mr (MR_from_CBR cbr) = round_to_double (1500 * cbr)
         \<and> \<bar>mr (MR_from_CBR cbr) - 1500 * cbr\<bar> \<le> ulp (1500 * cbr) / 2
         \<and> \<bar>mr (MR_from_CBR cbr) - 1500 * cbr\<bar> \<le> 1500 * cbr / 2 ^ 53
         \<and> ((\<exists>m. 1500 * cbr = real_of_int m * ulp (1500 * cbr)) \<longrightarrow>
              mr (MR_from_CBR cbr) = 1500 * cbr)"
proof -
  have e: "\<bar>round_to_double (1500 * cbr) - 1500 * cbr\<bar> \<le> ulp (1500 * cbr) / 2"
    by (rule round_to_double_error)
  have "ulp (1500 * cbr) \<le> 1500 * cbr / 2 ^ 52"
    using assms by (intro ulp_relative) simp
  then have r: "\<bar>round_to_double (1500 * cbr) - 1500 * cbr\<bar> \<le> 1500 * cbr / 2 ^ 53"
    using e by simp
  have x: "(\<exists>m. 1500 * cbr = real_of_int m * ulp (1500 * cbr)) \<longrightarrow>
           round_to_double (1500 * cbr) = 1500 * cbr"
    using round_to_double_exact by blast
  show ?thesis
    using e r x by simp
qed

theorem cbr_to_mr_rounded_witness:
  "(5::real) > 0
   \<and> (\<exists>m. 1500 * (5::real) = real_of_int m * ulp (1500 * 5))
   \<and> mr (MR_from_CBR 5) = 7500
   \<and> \<bar>mr (MR_from_CBR 5) - 1500 * 5\<bar> \<le> 1500 * 5 / 2 ^ 53"
proof -
  have "(1500 * 5 :: real) = real_of_int (7500 * 2 ^ 40) * ulp (1500 * 5)"
    by (simp add: ulp_7500)
  then have m: "\<exists>m. 1500 * (5::real) = real_of_int m * ulp (1500 * 5)"
    by blast
  show ?thesis
    using m cbr_to_mr_rounded [of 5] by simp
qed

text \<open>
  The claim as stated fails at the double nearest to 1.1: the float product is
  \<open>1650 + 2^-42\<close>, printed 1650.0000000000002, not the exact product.
\<close>

theorem cbr_to_mr_not_exact:
  "(4953959590107546 / 2 ^ 52 :: real) > 0
   \<and> round_to_double (4953959590107546 / 2 ^ 52) = 4953959590107546 / 2 ^ 52
   \<and> mr (MR_from_CBR (4953959590107546 / 2 ^ 52)) = 7256776743321601 / 2 ^ 42
   \<and> mr (MR_from_CBR (4953959590107546 / 2 ^ 52)) \<noteq> 1500 * (4953959590107546 / 2 ^ 52)"
  by (simp only: mr_1_1 double_1_1) simp

lemma in_range_floor:
  assumes "p_i \<le> 5" and "1.5 \<le> p_t"
  shows "\<not> delta_psi p_i p_t / 4.2 - 1.5 > 0"
  using assms by (simp add: delta_psi_def field_simps)

lemma in_range_numerator:
  assumes "p_i \<le> 5" and "1.5 \<le> p_t"
  shows "term3_numerator (delta_psi p_i p_t) = Inr (- 3)"
proof -
  have "term3_numerator (delta_psi p_i p_t) = Inr (log 10 0.001)"
    using in_range_floor [OF assms] by (simp only: term3_numerator_value if_False)
  then show ?thesis
    by (simp only: log10_thousandth)
qed

lemma in_range_residual:
  assumes "p_i \<le> 5" and "1.5 \<le> p_t"
  shows "aashto_equation SN W18 ZR S0 (delta_psi p_i p_t) MR =
         aashto_equation SN W18 ZR S0 0 MR"
proof -
  have "term3_numerator (delta_psi p_i p_t) = term3_numerator 0"
    using in_range_numerator [OF assms] in_range_numerator [of "1.5" "1.5"]
    by (simp add: delta_psi_def)
  then show ?thesis
    by (simp add: aashto_equation_def)
qed

text \<open>
  C9. For \<open>p_i\<close> in [3.0, 5.0] and \<open>p_t\<close> in [1.5, 3.0] the guard
  \<open>delta_psi/4.2 - 1.5 > 0\<close> is false, the numerator is the floor \<open>log10(0.001) = -3\<close>,
  and two runs that differ only in such \<open>p_i\<close> and \<open>p_t\<close> give the same result, whatever
  the root finder.
\<close>
theorem serviceability_has_no_effect:
  assumes "3 \<le> p_i" and "p_i \<le> 5" and "1.5 \<le> p_t" and "p_t \<le> 3"
      and "3 \<le> p_i'" and "p_i' \<le> 5" and "1.5 \<le> p_t'" and "p_t' \<le> 3"
  shows "\<not> delta_psi p_i p_t / 4.2 - 1.5 > 0
         \<and> term3_numerator (delta_psi p_i p_t) = Inr (log 10 0.001)
         \<and> log 10 0.001 = (- 3 :: real)
         \<and> calculate fsolve W18 ZR S0 (delta_psi p_i p_t) MR =
           calculate fsolve W18 ZR S0 (delta_psi p_i' p_t') MR"
proof -
  have "(\<lambda>SN. aashto_equation SN W18 ZR S0 (delta_psi p_i p_t) MR) =
        (\<lambda>SN. aashto_equation SN W18 ZR S0 (delta_psi p_i' p_t') MR)"
    using in_range_residual [OF assms(2,3)] in_range_residual [OF assms(6,7)]
    by simp
  then have "calculate fsolve W18 ZR S0 (delta_psi p_i p_t) MR =
             calculate fsolve W18 ZR S0 (delta_psi p_i' p_t') MR"
    by (simp add: calculate_def)
  moreover have "term3_numerator (delta_psi p_i p_t) = Inr (log 10 0.001)"
    using in_range_numerator [OF assms(2,3)] by (simp only: log10_thousandth)
  ultimately show ?thesis
    using in_range_floor [OF assms(2,3)] log10_thousandth
    by blast
qed

theorem serviceability_has_no_effect_witness:
  "(3::real) \<le> 4.2 \<and> (4.2::real) \<le> 5 \<and> (1.5::real) \<le> 2.5 \<and> (2.5::real) \<le> 3
   \<and> (3::real) \<le> 5 \<and> (5::real) \<le> 5 \<and> (1.5::real) \<le> 1.5 \<and> (1.5::real) \<le> 3
   \<and> \<not> delta_psi 4.2 2.5 / 4.2 - 1.5 > 0
   \<and> term3_numerator (delta_psi 4.2 2.5) = Inr (log 10 0.001)
   \<and> (\<forall>fsolve. calculate fsolve 5000000 (- 1.282) 0.45 (delta_psi 4.2 2.5) 7500 =
                 calculate fsolve 5000000 (- 1.282) 0.45 (delta_psi 5 1.5) 7500)"
  using serviceability_has_no_effect [of "4.2" "2.5" 5 "1.5"]
  by simp

subsection \<open>The residual at the initial guess, reference inputs\<close>

lemma log10_upper:
  assumes "0 < x" and "x ^ n \<le> 10 ^ m" and "0 < n"
  shows "log 10 x \<le> real m / real n"
proof -
  have "log 10 (x ^ n) \<le> log 10 (10 ^ m)"
    using assms(1,2) by (simp del: log_pow_cancel)
  moreover have "log 10 (x ^ n) = real n * log 10 x"
    using assms(1) by (simp add: log_nat_power)
  moreover have "log 10 ((10::real) ^ m) = real m"
    by simp
  ultimately have "real n * log 10 x \<le> real m" by simp
  then show ?thesis
    using assms(3) by (simp add: field_simps)
qed

lemma log10_lower:
  assumes "0 < x" and "10 ^ m \<le> x ^ n" and "0 < n"
  shows "real m / real n \<le> log 10 x"
proof -
  have "0 < x ^ n" using assms(1) by simp
  then have "log 10 (10 ^ m) \<le> log 10 (x ^ n)"
    using assms(2) by (simp del: log_pow_cancel)
  moreover have "log 10 (x ^ n) = real n * log 10 x"
    using assms(1) by (simp add: log_nat_power)
  moreover have "log 10 ((10::real) ^ m) = real m"
    by simp
  ultimately have "real m \<le> real n * log 10 x" by simp
  then show ?thesis
    using assms(3) by (simp add: field_simps)
qed

lemma log10_4_upper: "log 10 4 \<le> 0.62"
  using log10_upper [of 4 50 31] by simp

lemma log10_7500_upper: "log 10 7500 \<le> 3.88"
  using log10_upper [of 7500 25 97] by simp

lemma log10_5000000_lower: "6.6 \<le> log 10 5000000"
  using log10_lower [of 5000000 66 10] by simp

lemma residual_at_guess:
  "aashto_equation 3 5000000 (- 1.282) 0.45 1.7 7500 =
     Inr (- 1.282 * 0.45 + (9.36 * log 10 4 - 0.20)
          + log 10 0.001 / (0.40 + 1094 / 4 powr 5.19)
          + (2.32 * log 10 7500 - 8.07) - log 10 5000000)"
  using aashto_equation_value [of 3 5000000 7500 "- 1.282" "0.45" "1.7"]
  by simp

lemma far_from_zero:
  fixes a b c t :: real
  assumes "a \<le> 0.62" and "b \<le> 3.88" and "6.6 \<le> c" and "t < 0"
  shows "- 1.282 * 0.45 + (9.36 * a - 0.20) + t + (2.32 * b - 8.07) - c < - (1/2)"
  using assms by simp

lemma residual_at_guess_far:
  "- 1.282 * 0.45 + (9.36 * log 10 4 - 0.20)
     + log 10 0.001 / (0.40 + 1094 / 4 powr 5.19)
     + (2.32 * log 10 7500 - 8.07) - log 10 5000000 < - (1/2 :: real)"
proof -
  have den: "(0::real) < 0.40 + 1094 / 4 powr 5.19"
    using term3_denominator_pos [of 3] by simp
  have "log 10 0.001 / (0.40 + 1094 / 4 powr 5.19) = - 3 / (0.40 + 1094 / 4 powr 5.19)"
    by (simp only: log10_thousandth)
  also have "\<dots> < 0"
    using den by (simp add: divide_neg_pos)
  finally have t3: "log 10 0.001 / (0.40 + 1094 / 4 powr 5.19) < (0::real)" .
  show ?thesis
    using far_from_zero [OF log10_4_upper log10_7500_upper log10_5000000_lower t3] .
qed

subsection \<open>Shape of the residual\<close>

text \<open>
  With the floored numerator the residual is not monotone in \<open>SN\<close>: it is smaller at
  \<open>SN = 6\<close> than at \<open>SN = 2\<close>, for every positive traffic and subgrade modulus. Which
  root of the residual is reported is therefore a matter of where the root finder's
  iteration leads.
\<close>

lemma log10_3_lower: "0.47 \<le> log 10 3"
  using log10_lower [of 3 47 100] by simp

lemma log10_7_upper: "log 10 7 \<le> 0.85"
  using log10_upper [of 7 20 17] by simp

lemma den_at_2: "(1.9::real) \<le> 0.40 + 1094 / 3 powr 5.19"
proof -
  have "(3::real) powr 5.19 \<le> 3 powr 6"
    by (rule powr_mono) simp_all
  also have "\<dots> = 729"
    by simp
  finally have "(3::real) powr 5.19 \<le> 729" .
  moreover have "(0::real) < 3 powr 5.19" by simp
  ultimately have "1094 / 729 \<le> 1094 / (3::real) powr 5.19"
    by (intro divide_left_mono) simp_all
  then show ?thesis by simp
qed

lemma den_at_6: "0.40 + 1094 / 7 powr 5.19 \<le> (0.47::real)"
proof -
  have "(7::real) powr 5 \<le> 7 powr 5.19"
    by (rule powr_mono) simp_all
  moreover have "(7::real) powr 5 = 16807"
    by simp
  ultimately have "(16807::real) \<le> 7 powr 5.19" by simp
  then have "1094 / (7::real) powr 5.19 \<le> 1094 / 16807"
    by (intro divide_left_mono) simp_all
  then show ?thesis by simp
qed

lemma floor_term_at_2: "- 1.58 \<le> - 3 / (0.40 + 1094 / 3 powr 5.19 :: real)"
proof -
  have "3 / (0.40 + 1094 / 3 powr 5.19 :: real) \<le> 3 / 1.9"
    using den_at_2 by (intro divide_left_mono) simp_all
  then show ?thesis by simp
qed

lemma floor_term_at_6: "- 3 / (0.40 + 1094 / 7 powr 5.19 :: real) \<le> - 6.38"
proof -
  have p: "(0::real) < 0.40 + 1094 / 7 powr 5.19"
    using term3_denominator_pos [of 6] by simp
  have "3 / 0.47 \<le> 3 / (0.40 + 1094 / 7 powr 5.19 :: real)"
    using den_at_6 p by (intro divide_left_mono) simp_all
  then show ?thesis by simp
qed

lemma dip_arith:
  fixes a b s t K :: real
  assumes "0.47 \<le> a" and "b \<le> 0.85" and "- 1.58 \<le> s" and "t \<le> - 6.38"
  shows "K + (9.36 * b - 0.20) + t < K + (9.36 * a - 0.20) + s"
  using assms by simp

lemma residual_not_monotone_in_SN:
  assumes "W18 > 0" and "MR > 0" and "\<not> d / 4.2 - 1.5 > 0"
  shows "\<exists>v2 v6. aashto_equation 2 W18 ZR S0 d MR = Inr v2
           \<and> aashto_equation 6 W18 ZR S0 d MR = Inr v6 \<and> v6 < v2"
proof -
  have e2: "aashto_equation 2 W18 ZR S0 d MR =
      Inr (ZR * S0 + (9.36 * log 10 3 - 0.20) + log 10 0.001 / (0.40 + 1094 / 3 powr 5.19)
           + (2.32 * log 10 MR - 8.07) - log 10 W18)"
    using aashto_equation_value [of 2 W18 MR ZR S0 d] assms by simp
  have e6: "aashto_equation 6 W18 ZR S0 d MR =
      Inr (ZR * S0 + (9.36 * log 10 7 - 0.20) + log 10 0.001 / (0.40 + 1094 / 7 powr 5.19)
           + (2.32 * log 10 MR - 8.07) - log 10 W18)"
    using aashto_equation_value [of 6 W18 MR ZR S0 d] assms by simp
  have "ZR * S0 + (9.36 * log 10 7 - 0.20) + - 3 / (0.40 + 1094 / 7 powr 5.19)
        < ZR * S0 + (9.36 * log 10 3 - 0.20) + - 3 / (0.40 + 1094 / 3 powr 5.19)"
    by (rule dip_arith [OF log10_3_lower log10_7_upper floor_term_at_2 floor_term_at_6])
  then have "ZR * S0 + (9.36 * log 10 7 - 0.20) + log 10 0.001 / (0.40 + 1094 / 7 powr 5.19)
           + (2.32 * log 10 MR - 8.07) - log 10 W18
        < ZR * S0 + (9.36 * log 10 3 - 0.20) + log 10 0.001 / (0.40 + 1094 / 3 powr 5.19)
           + (2.32 * log 10 MR - 8.07) - log 10 W18"
    by (simp only: log10_thousandth)
  then show ?thesis
    using e2 e6 by blast
qed

subsection \<open>What the button reports\<close>

text \<open>
  C4, as the code has it. The script makes no convergence check: when the root finder
  returns an array, its first element is reported as the successful \<open>SN\<close>, whatever its
  sign or residual; the failure branch is taken exactly when the call raises (or the array
  is empty), and it reports that exception.
\<close>
theorem calculate_reports_any_iterate:
  "(fsolve (\<lambda>SN. aashto_equation SN W18 ZR S0 d MR) SN_initial_guess = Inr (x # xs) \<longrightarrow>
      calculate fsolve W18 ZR S0 d MR =
        Success \<lparr> SN_required = x, SN_rounded = round_up_half x,
                  D1 = (x / 3) / 0.44, D2 = (x / 3) / 0.14, D3 = (x / 3) / 0.11 \<rparr>)
   \<and> (fsolve (\<lambda>SN. aashto_equation SN W18 ZR S0 d MR) SN_initial_guess = Inl e \<longrightarrow>
      calculate fsolve W18 ZR S0 d MR = Failed e)
   \<and> (fsolve (\<lambda>SN. aashto_equation SN W18 ZR S0 d MR) SN_initial_guess = Inr [] \<longrightarrow>
      calculate fsolve W18 ZR S0 d MR = Failed IndexError)"
  by (simp add: calculate_def show_result_def py_bind_def first_elem_def)

theorem calculate_reports_any_iterate_witness:
  "stalled_fsolve (\<lambda>SN. aashto_equation SN 5000000 (- 1.282) 0.45 1.7 7500) SN_initial_guess
     = Inr [3]
   \<and> calculate stalled_fsolve 5000000 (- 1.282) 0.45 1.7 7500 =
        Success \<lparr> SN_required = 3, SN_rounded = round_up_half 3,
                  D1 = (3 / 3) / 0.44, D2 = (3 / 3) / 0.14, D3 = (3 / 3) / 0.11 \<rparr>
   \<and> (\<lambda>(func :: real \<Rightarrow> py_exn + real) (x0 :: real). (Inl ValueError :: py_exn + real list))
        (\<lambda>SN. aashto_equation SN 5000000 (- 1.282) 0.45 1.7 7500) SN_initial_guess
     = Inl ValueError
   \<and> calculate (\<lambda>func x0. Inl ValueError) 5000000 (- 1.282) 0.45 1.7 7500 = Failed ValueError
   \<and> calculate (\<lambda>func x0. Inr []) 5000000 (- 1.282) 0.45 1.7 7500 = Failed IndexError"
  using calculate_reports_any_iterate
          [of stalled_fsolve 5000000 "- 1.282" "0.45" "1.7" 7500 3 "[]"]
        calculate_reports_any_iterate
          [of "\<lambda>func x0. Inl ValueError" 5000000 "- 1.282" "0.45" "1.7" 7500 _ _ ValueError]
        calculate_reports_any_iterate
          [of "\<lambda>func x0. Inr []" 5000000 "- 1.282" "0.45" "1.7" 7500]
  by (simp add: stalled_fsolve_def SN_initial_guess_def)

text \<open>
  A root finder that stops at the initial guess on the reference inputs is reported as a
  success although the residual there is farther than 1/2 from zero, and a negative
  iterate is reported as a success too.
\<close>

theorem unconverged_and_negative_reported_as_success:
  "calculate stalled_fsolve 5000000 (- 1.282) 0.45 1.7 7500 =
     Success \<lparr> SN_required = 3, SN_rounded = 3,
               D1 = (3 / 3) / 0.44, D2 = (3 / 3) / 0.14, D3 = (3 / 3) / 0.11 \<rparr>
   \<and> \<not> residual_within (1/2) (aashto_equation 3 5000000 (- 1.282) 0.45 1.7 7500)
   \<and> show_result (Inr [- 1/2]) =
     Success \<lparr> SN_required = - 1/2, SN_rounded = - 1/2,
               D1 = (- 1/2 / 3) / 0.44, D2 = (- 1/2 / 3) / 0.14, D3 = (- 1/2 / 3) / 0.11 \<rparr>"
proof -
  have a: "calculate stalled_fsolve 5000000 (- 1.282) 0.45 1.7 7500 =
     Success \<lparr> SN_required = 3, SN_rounded = 3,
               D1 = (3 / 3) / 0.44, D2 = (3 / 3) / 0.14, D3 = (3 / 3) / 0.11 \<rparr>"
    by (simp add: calculate_def stalled_fsolve_def SN_initial_guess_def show_result_def
          py_bind_def first_elem_def round_up_half_def)
  have b: "\<not> residual_within (1/2) (aashto_equation 3 5000000 (- 1.282) 0.45 1.7 7500)"
  proof -
    have "\<not> \<bar>- 1.282 * 0.45 + (9.36 * log 10 4 - 0.20)
          + log 10 0.001 / (0.40 + 1094 / 4 powr 5.19)
          + (2.32 * log 10 7500 - 8.07) - log 10 5000000\<bar> < (1/2 :: real)"
      using residual_at_guess_far by linarith
    then show ?thesis
      by (simp only: residual_at_guess residual_within_def sum.case not_False_eq_True)
  qed
  have c: "show_result (Inr [- 1/2]) =
     Success \<lparr> SN_required = - 1/2, SN_rounded = - 1/2,
               D1 = (- 1/2 / 3) / 0.44, D2 = (- 1/2 / 3) / 0.14, D3 = (- 1/2 / 3) / 0.11 \<rparr>"
    by (simp add: show_result_def py_bind_def first_elem_def round_up_half_def)
  show ?thesis
    using a b c by blast
qed

end
